theory Spec2Isabelle
  imports Main "HOL-Library.Sublist"
begin

section \<open>Python string operations used by the assistant\<close>

text \<open>
  Strings are lists of characters. A \<^typ>\<open>char\<close> is read as a code point in the range
  0..255 (Latin-1), where Python's \<^verbatim>\<open>str.lower\<close> and \<^verbatim>\<open>str.isspace\<close> stay inside the
  range; code points beyond it are outside this model.
\<close>

definition is_space :: "char \<Rightarrow> bool" where
  "is_space c = (of_char c \<in> set [9, 10, 11, 12, 13, 28, 29, 30, 31, 32, 133, 160 :: nat])"

definition lower_char :: "char \<Rightarrow> char" where
  "lower_char c =
     (let n = (of_char c :: nat) in
      if (65 \<le> n \<and> n \<le> 90) \<or> (192 \<le> n \<and> n \<le> 222 \<and> n \<noteq> 215)
      then char_of (n + 32) else c)"

definition lower :: "string \<Rightarrow> string" where
  "lower s = map lower_char s"

definition lstrip :: "string \<Rightarrow> string" where
  "lstrip s = dropWhile is_space s"

definition strip :: "string \<Rightarrow> string" where
  "strip s = rev (lstrip (rev (lstrip s)))"

text \<open>\<^verbatim>\<open>s.startswith(p)\<close>.\<close>

definition startswith :: "string \<Rightarrow> string \<Rightarrow> bool" where
  "startswith s p = prefix p s"

text \<open>\<^verbatim>\<open>needle in hay\<close> on strings: \<open>needle\<close> occurs as a contiguous block.\<close>

fun is_in :: "string \<Rightarrow> string \<Rightarrow> bool" where
  "is_in needle [] = (needle = [])"
| "is_in needle (h # hs) = (prefix needle (h # hs) \<or> is_in needle hs)"

text \<open>
  \<^verbatim>\<open>s.replace(old, new)\<close>: every non-overlapping occurrence of \<open>old\<close>, scanning from
  the left, is replaced. With an empty \<open>old\<close> Python puts \<open>new\<close> around every character.
\<close>

function replace :: "string \<Rightarrow> string \<Rightarrow> string \<Rightarrow> string" where
  "replace old new [] = (if old = [] then new else [])"
| "replace old new (c # cs) =
     (if old = [] then new @ c # replace old new cs
      else if prefix old (c # cs) then new @ replace old new (drop (length old) (c # cs))
      else c # replace old new cs)"
  by pat_completeness auto
termination
  by (relation "measure (\<lambda>(old, new, s). length s)") auto

text \<open>\<^verbatim>\<open>s.split()\<close>: the maximal runs of non-whitespace characters.\<close>

function split_ws :: "string \<Rightarrow> string list" where
  "split_ws s =
     (let t = lstrip s in
      if t = [] then []
      else takeWhile (\<lambda>c. \<not> is_space c) t # split_ws (dropWhile (\<lambda>c. \<not> is_space c) t))"
  by pat_completeness auto
termination
proof (relation "measure length")
  show "wf (measure length)" by simp
next
  fix s t :: string
  assume t: "t = lstrip s" and ne: "t \<noteq> []"
  have a: "length t \<le> length s"
    unfolding t lstrip_def by (rule length_dropWhile_le)
  have "\<not> is_space (hd t)"
    using ne unfolding t lstrip_def by (rule hd_dropWhile)
  then have "dropWhile (\<lambda>c. \<not> is_space c) t = dropWhile (\<lambda>c. \<not> is_space c) (tl t)"
    using ne by (cases t) simp_all
  moreover have "length (dropWhile (\<lambda>c. \<not> is_space c) (tl t)) \<le> length (tl t)"
    by (rule length_dropWhile_le)
  ultimately have "length (dropWhile (\<lambda>c. \<not> is_space c) t) \<le> length (tl t)"
    by simp
  also have "\<dots> < length t" using ne by (cases t) simp_all
  finally show "(dropWhile (\<lambda>c. \<not> is_space c) t, s) \<in> measure length"
    using a by simp
qed

text \<open>\<^verbatim>\<open>sep.join(parts)\<close>.\<close>

fun join :: "string \<Rightarrow> string list \<Rightarrow> string" where
  "join sep [] = []"
| "join sep [p] = p"
| "join sep (p # q # ps) = p @ sep @ join sep (q # ps)"

text \<open>\<^verbatim>\<open>s.endswith((a, b, ...))\<close> with a tuple of suffixes.\<close>

definition endswith_any :: "string \<Rightarrow> string list \<Rightarrow> bool" where
  "endswith_any s sufs = (\<exists>x \<in> set sufs. suffix x s)"

text \<open>\<^verbatim>\<open>str(n)\<close> for a natural number.\<close>

definition digit_char :: "nat \<Rightarrow> char" where
  "digit_char d = char_of (48 + d)"

function str_nat :: "nat \<Rightarrow> string" where
  "str_nat n = (if n < 10 then [digit_char n] else str_nat (n div 10) @ [digit_char (n mod 10)])"
  by pat_completeness auto
termination
  by (relation "measure id") auto

section \<open>Exceptions and dictionaries\<close>

datatype error = KeyError string | KeyboardInterrupt | OtherException

text \<open>
  A \<^verbatim>\<open>dict\<close> keeps its insertion order: an association list. \<open>d[k]\<close> raises
  \<^verbatim>\<open>KeyError\<close> on a missing key.
\<close>

definition has_key :: "(string \<times> 'v) list \<Rightarrow> string \<Rightarrow> bool" where
  "has_key d k = (k \<in> set (map fst d))"

definition getitem :: "(string \<times> 'v) list \<Rightarrow> string \<Rightarrow> error + 'v" where
  "getitem d k = (case map_of d k of None \<Rightarrow> Inl (KeyError k) | Some v \<Rightarrow> Inr v)"

section \<open>The assistant's state, its collaborators and its effects\<close>

text \<open>
  What the assistant does to the outside is a list of effects, in order: text handed to
  the speech engine, URLs handed to the browser, pauses (in milliseconds) and the
  one-time microphone calibration. Log lines are left out.
\<close>

datatype effect = Speak string | OpenUrl string | Sleep nat | AdjustForAmbientNoise

text \<open>
  The fields of \<^verbatim>\<open>VoiceAssistant\<close> that the commands read or write. \<open>client\<close> says
  whether the AI client was built (\<^verbatim>\<open>self.client\<close> is not \<^verbatim>\<open>None\<close>).
\<close>

record voice_assistant =
  newsapi_key :: "string option"
  client :: bool
  music_library :: "(string \<times> string) list"
  song_aliases :: "(string \<times> string list) list"
  is_listening :: bool
  should_quit :: bool

text \<open>What one call of the recognizer, the news request and the AI request can give.\<close>

datatype listen_outcome =
    Recognized string
  | MicrophoneError
  | WaitTimeoutError
  | UnknownValueError
  | RequestError
  | UnexpectedListenError
  | Interrupted
  | Escaped

text \<open>
  One element of the \<^verbatim>\<open>articles\<close> array, as the headline loop sees it: a dictionary
  whose title is a string, a dictionary whose title is \<^verbatim>\<open>null\<close>, a dictionary without a
  title, or something that is no dictionary (\<^verbatim>\<open>article.get\<close> raises).
\<close>

datatype article = Titled string | NullTitle | Untitled | NotADict

text \<open>
  \<open>HttpArticles\<close> is a response whose \<^verbatim>\<open>articles\<close> is an array (empty when the key is
  missing); \<open>HttpOtherException\<close> is any exception, other than the two of the request,
  raised before the headlines are introduced.
\<close>

datatype http_result =
    HttpTimeout
  | HttpRequestException
  | HttpOtherException
  | HttpArticles "article list"

datatype ai_result = AiText string | AiException

text \<open>
  The outside world during one turn of the loop: what the recognizer hears, what an HTTP
  GET of a URL gives, what the model answers to a prompt, and the clock rendered with a
  format string.
\<close>

record world =
  heard :: listen_outcome
  requests_get :: "string \<Rightarrow> http_result"
  generate_content :: "string \<Rightarrow> ai_result"
  strftime :: "string \<Rightarrow> string"

subsection \<open>\<^verbatim>\<open>_setup_music_library\<close>\<close>

definition the_music_library :: "(string \<times> string) list" where
  "the_music_library =
    [(''skyfall'', ''https://open.spotify.com/track/6VObnIkLVruX4UVyxWhlqm''),
     (''levitating'', ''https://open.spotify.com/track/39LLxExYz6ewLAcYrzQQyP''),
     (''sugar'', ''https://open.spotify.com/track/2iuZJX9X9P0GKaE93xcPjk''),
     (''despacito'', ''https://open.spotify.com/track/6habFhsOp2NvshLv26DqMb''),
     (''faded'', ''https://open.spotify.com/track/7BKLCZ1jbUBVqRi2FVlTVw''),
     (''dusk till dawn'', ''https://open.spotify.com/track/3e7sxremeOE3wTySiOhGiP''),
     (''shape of you'', ''https://open.spotify.com/track/7qiZfU4dY1lWllzX7mPBI3''),
     (''perfect'', ''https://open.spotify.com/track/0tgVpDi06FyKpA1z0VMD4v''),
     (''believer'', ''https://open.spotify.com/track/0pqnGHJpmpxLKifKRmU6WP''),
     (''blinding lights'', ''https://open.spotify.com/track/0VjIjW4GlUZAMYd2vXMi3b'')]"

definition the_song_aliases :: "(string \<times> string list) list" where
  "the_song_aliases =
    [(''dusk till dawn'', [''dusk till dawn'', ''dusk to dawn'', ''dusk until dawn'']),
     (''shape of you'', [''shape of you'', ''shape of u'']),
     (''blinding lights'', [''blinding lights'', ''blinding light''])]"

definition setup_music_library :: "'a voice_assistant_scheme \<Rightarrow> 'a voice_assistant_scheme" where
  "setup_music_library va =
     va\<lparr>music_library := the_music_library, song_aliases := the_song_aliases\<rparr>"

text \<open>
  \<^verbatim>\<open>__init__\<close>: the news key read from the environment, whether the AI client could
  be built, the two flags cleared, the library set up.
\<close>

definition init :: "string option \<Rightarrow> bool \<Rightarrow> voice_assistant" where
  "init news_key client_built =
     setup_music_library
       \<lparr>newsapi_key = news_key, client = client_built, music_library = [],
        song_aliases = [], is_listening = False, should_quit = False\<rparr>"

subsection \<open>\<^verbatim>\<open>speak\<close>\<close>

text \<open>
  Empty text is not spoken. A failure of the speech engine is caught inside
  \<^verbatim>\<open>_speak_sync\<close> and never reaches the caller.
\<close>

definition speak :: "string \<Rightarrow> effect list" where
  "speak text = (if text = [] then [] else [Speak text])"

subsection \<open>\<^verbatim>\<open>find_song\<close>\<close>

text \<open>The alias loop: the first song whose alias list holds the query.\<close>

fun find_alias :: "(string \<times> string list) list \<Rightarrow> string \<Rightarrow> string option" where
  "find_alias [] q = None"
| "find_alias ((song, aliases) # rest) q =
     (if q \<in> set aliases then Some song else find_alias rest q)"

text \<open>The partial-match loop over the library's names, in the dictionary's order.\<close>

fun find_partial :: "string list \<Rightarrow> string \<Rightarrow> string option" where
  "find_partial [] q = None"
| "find_partial (song_name # rest) q =
     (if is_in q song_name \<or> is_in song_name q then Some song_name else find_partial rest q)"

definition some_item :: "(string \<times> string) list \<Rightarrow> string \<Rightarrow> error + string option" where
  "some_item d k = (case getitem d k of Inl e \<Rightarrow> Inl e | Inr v \<Rightarrow> Inr (Some v))"

definition find_song :: "'a voice_assistant_scheme \<Rightarrow> string \<Rightarrow> error + string option" where
  "find_song va song_query0 =
     (let song_query = strip (lower song_query0) in
      if has_key (music_library va) song_query then some_item (music_library va) song_query
      else
        (case find_alias (song_aliases va) song_query of
           Some song \<Rightarrow> some_item (music_library va) song
         | None \<Rightarrow>
            (case find_partial (map fst (music_library va)) song_query of
               Some song_name \<Rightarrow> some_item (music_library va) song_name
             | None \<Rightarrow> Inr None)))"

subsection \<open>\<^verbatim>\<open>ai_process\<close> and \<^verbatim>\<open>AIClient._clean_response\<close>\<close>

definition newline :: char where
  "newline = CHR 0x0A"

definition indent12 :: string where
  "indent12 = replicate 12 (CHR '' '')"

definition enhanced_prompt :: "string \<Rightarrow> string" where
  "enhanced_prompt command =
     [newline] @ indent12 @
     ''You are Jarvis, a helpful voice assistant. Respond concisely and naturally.'' @
     [newline] @ indent12 @ ''User query: '' @ command @
     [newline] @ indent12 @
     [newline] @ indent12 @
     ''Keep responses brief and conversational for voice interaction.'' @
     [newline] @ indent12"

text \<open>
  The clean-up that the assistant applies to the model's text: asterisks removed, ends
  trimmed.
\<close>

definition ai_cleanup :: "string \<Rightarrow> string" where
  "ai_cleanup text = strip (replace ''*'' [] text)"

definition ai_process :: "world \<Rightarrow> 'a voice_assistant_scheme \<Rightarrow> string \<Rightarrow> string" where
  "ai_process w va command =
     (if \<not> client va then ''AI functionality is not available. Please check your API key.''
      else
        (case generate_content w (enhanced_prompt command) of
           AiText text \<Rightarrow> ai_cleanup text
         | AiException \<Rightarrow> ''I'm having trouble processing that request right now.''))"

text \<open>\<^verbatim>\<open>AIClient._clean_response\<close> of the separate AI client module.\<close>

definition clean_response :: "string \<Rightarrow> string" where
  "clean_response text =
     (if text = [] then ''I'm sorry, I couldn't generate a response.''
      else
        (let cleaned = replace ''`'' [] (replace ''#'' [] (replace ''*'' [] text));
             cleaned = join '' '' (split_ws cleaned);
             cleaned = (if cleaned \<noteq> [] \<and> \<not> endswith_any cleaned [''.'', ''!'', ''?'']
                        then cleaned @ ''.'' else cleaned)
         in strip cleaned))"

subsection \<open>\<^verbatim>\<open>get_news\<close>\<close>

definition news_url :: "string \<Rightarrow> string \<Rightarrow> string \<Rightarrow> string" where
  "news_url country category key =
     ''https://newsapi.org/v2/top-headlines?country='' @ country @
     ''&category='' @ category @ ''&apiKey='' @ key"

text \<open>
  \<^verbatim>\<open>article.get('title', 'No title available')\<close> rendered by the f-string: a
  \<^verbatim>\<open>null\<close> title prints as \<^verbatim>\<open>None\<close>, a missing one gives the default, and an article
  that is no dictionary raises.
\<close>

fun title_text :: "article \<Rightarrow> error + string" where
  "title_text (Titled t) = Inr t"
| "title_text NullTitle = Inr ''None''"
| "title_text Untitled = Inr ''No title available''"
| "title_text NotADict = Inl OtherException"

text \<open>
  The loop over \<^verbatim>\<open>enumerate(articles[:3], 1)\<close>: what is spoken, and whether the loop
  ran to its end (\<open>False\<close>: an article raised, after the headlines before it were spoken).
\<close>

fun speak_headlines :: "nat \<Rightarrow> article list \<Rightarrow> effect list \<times> bool" where
  "speak_headlines i [] = ([], True)"
| "speak_headlines i (article # rest) =
     (case title_text article of
        Inl e \<Rightarrow> ([], False)
      | Inr title \<Rightarrow>
          (case speak_headlines (i + 1) rest of
             (effs, finished) \<Rightarrow>
               (speak (''News '' @ str_nat i @ '': '' @ title) @ [Sleep 500] @ effs, finished)))"

definition get_news ::
  "world \<Rightarrow> 'a voice_assistant_scheme \<Rightarrow> string \<Rightarrow> string \<Rightarrow> effect list \<times> bool" where
  "get_news w va category country =
     (case newsapi_key va of
        None \<Rightarrow> (speak ''News service is not configured.'', False)
      | Some key \<Rightarrow>
          if key = [] then (speak ''News service is not configured.'', False)
          else
            (case requests_get w (news_url country category key) of
               HttpArticles articles \<Rightarrow>
                 if articles = [] then (speak ''No news articles found at the moment.'', False)
                 else
                   (case speak_headlines 1 (take 3 articles) of
                      (effs, finished) \<Rightarrow>
                        if finished then
                          (speak (''Here are the top '' @ str_nat (min 3 (length articles)) @
                                  '' headlines:'') @ effs, True)
                        else
                          (speak (''Here are the top '' @ str_nat (min 3 (length articles)) @
                                  '' headlines:'') @ effs @
                           speak ''An error occurred while fetching news.'', False))
             | HttpTimeout \<Rightarrow> (speak ''News service is taking too long to respond.'', False)
             | HttpRequestException \<Rightarrow>
                 (speak ''I'm having trouble connecting to the news service.'', False)
             | HttpOtherException \<Rightarrow>
                 (speak ''An error occurred while fetching news.'', False)))"

subsection \<open>\<^verbatim>\<open>process_command\<close>\<close>

definition website_commands :: "(string \<times> string \<times> string) list" where
  "website_commands =
    [(''open google'', ''https://google.com'', ''Opening Google''),
     (''open youtube'', ''https://youtube.com'', ''Opening YouTube''),
     (''open instagram'', ''https://instagram.com'', ''Opening Instagram''),
     (''open linkedin'', ''https://linkedin.com'', ''Opening LinkedIn''),
     (''open facebook'', ''https://facebook.com'', ''Opening Facebook''),
     (''open twitter'', ''https://twitter.com'', ''Opening Twitter''),
     (''open reddit'', ''https://reddit.com'', ''Opening Reddit'')]"

text \<open>The loop over the website table: the first trigger phrase the command contains.\<close>

fun find_website :: "(string \<times> string \<times> string) list \<Rightarrow> string \<Rightarrow> (string \<times> string) option" where
  "find_website [] command = None"
| "find_website ((cmd, url, message) # rest) command =
     (if is_in cmd command then Some (url, message) else find_website rest command)"

definition exit_commands :: "string list" where
  "exit_commands = [''goodbye'', ''stop'', ''quit'', ''exit'', ''bye'']"

text \<open>The local \<^verbatim>\<open>song_query\<close> of the music branch.\<close>

definition song_query_of :: "string \<Rightarrow> string" where
  "song_query_of command = strip (replace ''play'' [] command)"

text \<open>The music branch, entered when the command starts with \<^verbatim>\<open>play\<close>.\<close>

definition youtube_fallback :: "string \<Rightarrow> effect list" where
  "youtube_fallback song_query =
     speak (''Sorry, I couldn't find '' @ song_query @ '' in my music library.'') @
     speak ''Let me search for it on YouTube instead.'' @
     [OpenUrl (''https://www.youtube.com/results?search_query='' @
               replace '' '' ''+'' song_query)]"

definition play_music :: "'a voice_assistant_scheme \<Rightarrow> string \<Rightarrow> effect list \<times> (error + string)" where
  "play_music va command =
     (let song_query = song_query_of command in
      if song_query = [] then (speak ''Please specify a song to play.'', Inr ''continue'')
      else
        (case find_song va song_query of
           Inl e \<Rightarrow> ([], Inl e)
         | Inr None \<Rightarrow> (youtube_fallback song_query, Inr ''continue'')
         | Inr (Some song_url) \<Rightarrow>
             if song_url \<noteq> [] then
               (speak (''Playing '' @ song_query) @ [OpenUrl song_url], Inr ''continue'')
             else (youtube_fallback song_query, Inr ''continue'')))"

text \<open>The category chosen inside the news branch.\<close>

definition news_category :: "string \<Rightarrow> string" where
  "news_category command =
     (if is_in ''technology'' command \<or> is_in ''tech'' command then ''technology''
      else if is_in ''sports'' command then ''sports''
      else if is_in ''business'' command then ''business''
      else if is_in ''entertainment'' command then ''entertainment''
      else ''general'')"

definition process_command ::
  "world \<Rightarrow> 'a voice_assistant_scheme \<Rightarrow> string \<Rightarrow> effect list \<times> (error + string)" where
  "process_command w va command0 =
     (let command = strip (lower command0) in
      if command = [] then ([], Inr ''continue'')
      else
        (case find_website website_commands command of
           Some (url, message) \<Rightarrow> (speak message @ [OpenUrl url], Inr ''continue'')
         | None \<Rightarrow>
             if startswith command ''play'' then play_music va command
             else if is_in ''news'' command then
               (fst (get_news w va (news_category command) ''in''), Inr ''continue'')
             else if is_in ''time'' command then
               (speak (''The current time is '' @ strftime w ''%I:%M %p''), Inr ''continue'')
             else if is_in ''date'' command then
               (speak (''Today is '' @ strftime w ''%B %d, %Y''), Inr ''continue'')
             else if \<exists>exit_cmd \<in> set exit_commands. is_in exit_cmd command then
               (speak ''Goodbye! Have a great day!'', Inr ''quit'')
             else
               (speak ''Let me think about that...'' @ speak (ai_process w va command),
                Inr ''continue'')))"

subsection \<open>\<^verbatim>\<open>listen_for_command\<close>\<close>

text \<open>
  \<open>MicrophoneError\<close> is an exception while the microphone is opened, before any
  calibration; on every other outcome the microphone has opened, and it is calibrated if
  this is the first time. Every outcome but \<open>Interrupted\<close> and \<open>Escaped\<close> is handled
  inside the function: recognized text is returned in lower case, the errors give
  \<^verbatim>\<open>None\<close>. \<open>Interrupted\<close> is a keyboard interrupt, which \<^verbatim>\<open>except Exception\<close> does
  not catch; \<open>Escaped\<close> is an exception raised by one of the function's own handlers.
\<close>

definition listen_for_command ::
  "world \<Rightarrow> 'a voice_assistant_scheme \<Rightarrow>
     effect list \<times> (error + string option) \<times> 'a voice_assistant_scheme" where
  "listen_for_command w va =
     (if heard w = MicrophoneError then ([], Inr None, va)
      else
        (let effs = (if is_listening va then [] else [AdjustForAmbientNoise]);
             va' = va\<lparr>is_listening := True\<rparr>
         in (effs,
             (case heard w of
                Recognized command \<Rightarrow> Inr (Some (lower command))
              | MicrophoneError \<Rightarrow> Inr None
              | WaitTimeoutError \<Rightarrow> Inr None
              | UnknownValueError \<Rightarrow> Inr None
              | RequestError \<Rightarrow> Inr None
              | UnexpectedListenError \<Rightarrow> Inr None
              | Interrupted \<Rightarrow> Inl KeyboardInterrupt
              | Escaped \<Rightarrow> Inl OtherException),
             va')))"

subsection \<open>\<^verbatim>\<open>run\<close>: the dialogue loop\<close>

text \<open>
  The loop's state: the assistant, the local counter, whether a \<^verbatim>\<open>break\<close> has left the
  loop, and everything done to the outside so far.
\<close>

record loop_state =
  assistant :: voice_assistant
  consecutive_errors :: nat
  broke :: bool
  trace :: "effect list"

definition max_consecutive_errors :: nat where
  "max_consecutive_errors = 5"

definition emit :: "effect list \<Rightarrow> loop_state \<Rightarrow> loop_state" where
  "emit effs s = s\<lparr>trace := trace s @ effs\<rparr>"

text \<open>The local \<^verbatim>\<open>actual_command\<close> of the wake-word branch.\<close>

definition actual_command_of :: "string \<Rightarrow> string" where
  "actual_command_of command = strip (replace ''jarvis'' [] command)"

text \<open>The branch \<^verbatim>\<open>if command is None\<close>.\<close>

definition on_listen_failure :: "loop_state \<Rightarrow> loop_state" where
  "on_listen_failure s =
     (let s1 = s\<lparr>consecutive_errors := consecutive_errors s + 1\<rparr> in
      if consecutive_errors s1 \<ge> max_consecutive_errors then
        (emit (speak ''I'm having trouble hearing you. Please check your microphone.'' @
               [Sleep 2000]) s1)\<lparr>consecutive_errors := 0\<rparr>
      else s1)"

text \<open>The two handlers around the loop body.\<close>

definition on_exception :: "loop_state \<Rightarrow> loop_state" where
  "on_exception s =
     (let s1 = s\<lparr>consecutive_errors := consecutive_errors s + 1\<rparr> in
      if consecutive_errors s1 \<ge> max_consecutive_errors then
        (emit (speak ''I'm experiencing technical difficulties. Restarting...'' @
               [Sleep 3000]) s1)\<lparr>consecutive_errors := 0\<rparr>
      else s1)"

definition handle_error :: "error \<Rightarrow> loop_state \<Rightarrow> loop_state" where
  "handle_error e s =
     (if e = KeyboardInterrupt then (emit (speak ''Shutting down...'') s)\<lparr>broke := True\<rparr>
      else on_exception s)"

text \<open>What follows a successful recognition, the counter already reset.\<close>

definition on_command :: "world \<Rightarrow> string \<Rightarrow> loop_state \<Rightarrow> loop_state" where
  "on_command w command s =
     (if startswith command ''jarvis'' then
        (let actual_command = actual_command_of command in
         if actual_command \<noteq> [] then
           (case process_command w (assistant s) actual_command of
              (effs, Inl e) \<Rightarrow> handle_error e (emit effs s)
            | (effs, Inr result) \<Rightarrow>
                if result = ''quit'' then
                  (emit effs s)\<lparr>assistant := (assistant s)\<lparr>should_quit := True\<rparr>, broke := True\<rparr>
                else emit effs s)
         else emit (speak ''Yes, how can I help you?'') s)
      else s)"

text \<open>One pass through the body of the \<^verbatim>\<open>while\<close> loop.\<close>

definition iteration :: "world \<Rightarrow> loop_state \<Rightarrow> loop_state" where
  "iteration w s =
     (case listen_for_command w (assistant s) of
        (effs, r, va') \<Rightarrow>
          (let s0 = emit effs (s\<lparr>assistant := va'\<rparr>) in
           case r of
             Inl e \<Rightarrow> handle_error e s0
           | Inr None \<Rightarrow> on_listen_failure s0
           | Inr (Some command) \<Rightarrow> on_command w command (s0\<lparr>consecutive_errors := 0\<rparr>)))"



subsection \<open>A world for the worked examples\<close>

definition example_world :: "listen_outcome \<Rightarrow> world" where
  "example_world h =
     \<lparr>heard = h, requests_get = (\<lambda>url. HttpArticles []),
      generate_content = (\<lambda>prompt. AiText ''**Hello** there''),
      strftime = (\<lambda>format. ''12:00 PM'')\<rparr>"

subsection \<open>Vocabulary for the statements about the loop\<close>

text \<open>
  A turn whose listen attempt fails (\<open>listen_for_command\<close> returns \<^verbatim>\<open>None\<close>), a turn
  in which an exception reaches the loop from the listen call, the assistant after a
  run of turns (calibrated once the microphone has opened), the calibration such a run
  performs, and the notice that ends a burst of errors.
\<close>

definition listen_fails :: "world \<Rightarrow> bool" where
  "listen_fails w =
     (case heard w of
        MicrophoneError \<Rightarrow> True
      | WaitTimeoutError \<Rightarrow> True
      | UnknownValueError \<Rightarrow> True
      | RequestError \<Rightarrow> True
      | UnexpectedListenError \<Rightarrow> True
      | _ \<Rightarrow> False)"

definition listen_raises :: "world \<Rightarrow> bool" where
  "listen_raises w = (heard w = Escaped)"

definition microphone_opens :: "world list \<Rightarrow> bool" where
  "microphone_opens ws = (\<exists>w \<in> set ws. heard w \<noteq> MicrophoneError)"

definition listened :: "world list \<Rightarrow> voice_assistant \<Rightarrow> voice_assistant" where
  "listened ws va = va\<lparr>is_listening := is_listening va \<or> microphone_opens ws\<rparr>"

definition calibration :: "loop_state \<Rightarrow> world list \<Rightarrow> effect list" where
  "calibration s ws =
     (if \<not> is_listening (assistant s) \<and> microphone_opens ws then [AdjustForAmbientNoise]
      else [])"




section \<open>Properties of the song resolver\<close>

lemma is_in_iff_sublist: "is_in needle hay \<longleftrightarrow> sublist needle hay"
  by (induction hay) (simp_all add: sublist_Cons_right)

lemma is_in_trans: "is_in a b \<Longrightarrow> is_in b c \<Longrightarrow> is_in a c"
  unfolding is_in_iff_sublist by (rule sublist_order.order_trans)

lemma is_in_refl: "is_in a a"
  by (simp add: is_in_iff_sublist)

lemma Nil_is_in: "is_in [] hay"
  by (simp add: is_in_iff_sublist)

lemma some_item_has_key: "has_key d k \<Longrightarrow> \<exists>v. some_item d k = Inr (Some v)"
  unfolding has_key_def some_item_def getitem_def
  by (cases "map_of d k") (auto simp: map_of_eq_None_iff)

lemma find_alias_Some: "find_alias al q = Some song \<Longrightarrow> song \<in> set (map fst al)"
  by (induction al q rule: find_alias.induct) (auto split: if_splits)

lemma find_alias_None: "find_alias al q = None \<longleftrightarrow> (\<forall>(song, aliases) \<in> set al. q \<notin> set aliases)"
  by (induction al q rule: find_alias.induct) auto

lemma find_partial_Some: "find_partial ns q = Some n \<Longrightarrow> n \<in> set ns"
  by (induction ns q rule: find_partial.induct) (auto split: if_splits)

lemma find_partial_None:
  "find_partial ns q = None \<longleftrightarrow> (\<forall>n \<in> set ns. \<not> is_in q n \<and> \<not> is_in n q)"
  by (induction ns q rule: find_partial.induct) auto

lemma alias_songs_in_library: "set (map fst the_song_aliases) \<subseteq> set (map fst the_music_library)"
  by (simp add: the_song_aliases_def the_music_library_def)

lemma find_song_total:
  assumes lib: "music_library va = the_music_library" and al: "song_aliases va = the_song_aliases"
  shows "\<exists>r. find_song va query = Inr r"
proof -
  define q where "q = strip (lower query)"
  show ?thesis
  proof (cases "has_key the_music_library q")
    case True
    with some_item_has_key [OF True] show ?thesis
      by (auto simp: find_song_def lib al q_def Let_def)
  next
    case nokey: False
    show ?thesis
    proof (cases "find_alias the_song_aliases q")
      case (Some song)
      then have "has_key the_music_library song"
        using find_alias_Some alias_songs_in_library unfolding has_key_def by blast
      from some_item_has_key [OF this] nokey Some show ?thesis
        by (auto simp: find_song_def lib al q_def Let_def)
    next
      case noalias: None
      show ?thesis
      proof (cases "find_partial (map fst the_music_library) q")
        case None
        with nokey noalias show ?thesis
          by (simp add: find_song_def lib al q_def Let_def)
      next
        case (Some name)
        then have "has_key the_music_library name"
          using find_partial_Some unfolding has_key_def by blast
        from some_item_has_key [OF this] nokey noalias Some show ?thesis
          by (auto simp: find_song_def lib al q_def Let_def)
      qed
    qed
  qed
qed

lemma setup_fields [simp]:
  "music_library (setup_music_library va) = the_music_library"
  "song_aliases (setup_music_library va) = the_song_aliases"
  by (simp_all add: setup_music_library_def)

text \<open>
  Claim C1, as the code has it. For the fixed music library \<open>find_song\<close> never raises,
  and it returns \<^verbatim>\<open>None\<close> for every query that, lower-cased and trimmed, is no
  canonical name, is in no alias list, and neither contains a canonical name nor is
  contained in one.
\<close>

theorem find_song_not_found:
  "(\<exists>r. find_song (setup_music_library va) query = Inr r) \<and>
   (strip (lower query) \<notin> set (map fst the_music_library) \<and>
    (\<forall>(song, aliases) \<in> set the_song_aliases. strip (lower query) \<notin> set aliases) \<and>
    (\<forall>name \<in> set (map fst the_music_library).
        \<not> is_in (strip (lower query)) name \<and> \<not> is_in name (strip (lower query)))
    \<longrightarrow> find_song (setup_music_library va) query = Inr None)"
proof (intro conjI impI)
  show "\<exists>r. find_song (setup_music_library va) query = Inr r"
    by (rule find_song_total) simp_all
next
  assume h: "strip (lower query) \<notin> set (map fst the_music_library) \<and>
    (\<forall>(song, aliases) \<in> set the_song_aliases. strip (lower query) \<notin> set aliases) \<and>
    (\<forall>name \<in> set (map fst the_music_library).
        \<not> is_in (strip (lower query)) name \<and> \<not> is_in name (strip (lower query)))"
  then have "find_alias the_song_aliases (strip (lower query)) = None"
    and "find_partial (map fst the_music_library) (strip (lower query)) = None"
    unfolding find_alias_None find_partial_None by blast+
  with h show "find_song (setup_music_library va) query = Inr None"
    by (simp add: find_song_def has_key_def Let_def)
qed

theorem find_song_not_found_witness:
  "find_song (init None False) ''xyz'' = Inr None"
proof -
  have "strip (lower ''xyz'') \<notin> set (map fst the_music_library) \<and>
    (\<forall>(song, aliases) \<in> set the_song_aliases. strip (lower ''xyz'') \<notin> set aliases) \<and>
    (\<forall>name \<in> set (map fst the_music_library).
        \<not> is_in (strip (lower ''xyz'')) name \<and> \<not> is_in name (strip (lower ''xyz'')))"
    by code_simp
  with find_song_not_found [of _ "''xyz''"] show ?thesis
    unfolding init_def by blast
qed

text \<open>
  The empty string is not such a query: it is contained in every canonical name, and the
  partial-match loop answers with the first entry of the library.
\<close>

theorem find_song_empty_counterexample:
  "find_song (init None False) [] = Inr (Some ''https://open.spotify.com/track/6VObnIkLVruX4UVyxWhlqm'')"
  by code_simp

lemma library_names_not_nested:
  "\<forall>a \<in> set (map fst the_music_library). \<forall>b \<in> set (map fst the_music_library).
     is_in a b \<longrightarrow> a = b"
  by code_simp

lemma library_names_distinct: "distinct (map fst the_music_library)"
  by code_simp

lemma find_partial_first:
  "name \<in> set ns \<Longrightarrow> is_in q name \<Longrightarrow>
   (\<forall>m \<in> set ns. m \<noteq> name \<longrightarrow> \<not> is_in q m \<and> \<not> is_in m q) \<Longrightarrow>
   find_partial ns q = Some name"
  by (induction ns q rule: find_partial.induct) auto

text \<open>
  Claim C9. A query that, lower-cased and trimmed, is a proper substring of exactly one
  canonical name of the fixed library, and is neither a canonical name nor an alias,
  resolves to that entry's URL.
\<close>

theorem find_song_unique_substring:
  assumes entry: "(name, url) \<in> set the_music_library"
    and sub: "is_in (strip (lower query)) name"
    and proper: "strip (lower query) \<noteq> name"
    and only: "\<forall>other \<in> set (map fst the_music_library).
                 is_in (strip (lower query)) other \<longrightarrow> other = name"
    and no_exact: "strip (lower query) \<notin> set (map fst the_music_library)"
    and no_alias: "\<forall>(song, aliases) \<in> set the_song_aliases. strip (lower query) \<notin> set aliases"
  shows "find_song (setup_music_library va) query = Inr (Some url)"
proof -
  define q where "q = strip (lower query)"
  have name_in: "name \<in> set (map fst the_music_library)"
    using entry by force
  have others: "\<forall>m \<in> set (map fst the_music_library).
                  m \<noteq> name \<longrightarrow> \<not> is_in q m \<and> \<not> is_in m q"
  proof (intro ballI impI conjI)
    fix m assume m: "m \<in> set (map fst the_music_library)" and ne: "m \<noteq> name"
    show "\<not> is_in q m" using only m ne unfolding q_def by blast
    show "\<not> is_in m q"
    proof
      assume "is_in m q"
      then have "is_in m name" using sub unfolding q_def by (rule is_in_trans)
      with library_names_not_nested m name_in ne show False by blast
    qed
  qed
  have part: "find_partial (map fst the_music_library) q = Some name"
    using name_in sub others unfolding q_def by (intro find_partial_first) 
  have noal: "find_alias the_song_aliases q = None"
    using no_alias unfolding find_alias_None q_def by simp
  have item: "some_item the_music_library name = Inr (Some url)"
    using entry library_names_distinct by (simp add: some_item_def getitem_def)
  show ?thesis
    using no_exact part noal item
    by (simp add: find_song_def has_key_def Let_def q_def)
qed

theorem find_song_unique_substring_witness:
  "find_song (init None False) '' Of '' = Inr (Some ''https://open.spotify.com/track/7qiZfU4dY1lWllzX7mPBI3'')"
proof -
  have 1: "(''shape of you'', ''https://open.spotify.com/track/7qiZfU4dY1lWllzX7mPBI3'') \<in> set the_music_library"
    by code_simp
  have 2: "is_in (strip (lower '' Of '')) ''shape of you''" by code_simp
  have 3: "strip (lower '' Of '') \<noteq> ''shape of you''" by code_simp
  have 4: "\<forall>other \<in> set (map fst the_music_library).
                 is_in (strip (lower '' Of '')) other \<longrightarrow> other = ''shape of you''" by code_simp
  have 5: "strip (lower '' Of '') \<notin> set (map fst the_music_library)" by code_simp
  have 6: "\<forall>(song, aliases) \<in> set the_song_aliases. strip (lower '' Of '') \<notin> set aliases" by code_simp
  show ?thesis
    unfolding init_def by (rule find_song_unique_substring [OF 1 2 3 4 5 6])
qed

section \<open>Properties of the command cascade\<close>

lemma find_website_None:
  "find_website tbl c = None \<longleftrightarrow> (\<forall>(cmd, url, message) \<in> set tbl. \<not> is_in cmd c)"
  by (induction tbl c rule: find_website.induct) auto

lemma speak_headlines_not_T:
  "\<forall>e \<in> set (fst (speak_headlines i as)). \<forall>t. e \<noteq> Speak (CHR ''T'' # t)"
proof (induction i as rule: speak_headlines.induct)
  case (1 i)
  then show ?case by simp
next
  case (2 i article rest)
  show ?case
  proof (cases "title_text article")
    case (Inl e)
    then show ?thesis by simp
  next
    case (Inr title)
    obtain effs finished where sh: "speak_headlines (i + 1) rest = (effs, finished)"
      by (cases "speak_headlines (i + 1) rest")
    have "\<forall>e \<in> set effs. \<forall>t. e \<noteq> Speak (CHR ''T'' # t)"
      using "2.IH" [OF Inr] sh by simp
    then show ?thesis
      using Inr sh by (simp add: speak_def)
  qed
qed


lemma get_news_not_T:
  "\<forall>e \<in> set (fst (get_news w va category country)). \<forall>t. e \<noteq> Speak (CHR ''T'' # t)"
proof (cases "newsapi_key va")
  case None
  then show ?thesis by (simp add: get_news_def speak_def)
next
  case (Some key)
  show ?thesis
  proof (cases "key = []")
    case True
    with Some show ?thesis by (simp add: get_news_def speak_def)
  next
    case False
    show ?thesis
    proof (cases "requests_get w (news_url country category key)")
      case (HttpArticles articles)
      obtain effs finished where sh: "speak_headlines 1 (take 3 articles) = (effs, finished)"
        by (cases "speak_headlines 1 (take 3 articles)")
      have "\<forall>e \<in> set effs. \<forall>t. e \<noteq> Speak (CHR ''T'' # t)"
        using speak_headlines_not_T [of 1 "take 3 articles"] sh by simp
      then show ?thesis
        using Some False HttpArticles sh by (simp add: get_news_def speak_def)
    qed (use Some False in \<open>simp_all add: get_news_def speak_def\<close>)
  qed
qed

text \<open>
  Claim C5. A command that contains both \<^verbatim>\<open>news\<close> and \<^verbatim>\<open>time\<close>, contains no website
  trigger phrase and does not start with \<^verbatim>\<open>play\<close> is answered by the news handler, with
  the category \<^verbatim>\<open>general\<close> when no category keyword occurs, and the time announcement
  is not spoken.
\<close>

theorem news_before_time:
  assumes news: "is_in ''news'' (strip (lower command))"
    and time: "is_in ''time'' (strip (lower command))"
    and no_site: "\<forall>(cmd, url, message) \<in> set website_commands. \<not> is_in cmd (strip (lower command))"
    and no_play: "\<not> startswith (strip (lower command)) ''play''"
  shows "process_command w va command =
           (fst (get_news w va (news_category (strip (lower command))) ''in''), Inr ''continue'') \<and>
         (\<not> is_in ''technology'' (strip (lower command)) \<and> \<not> is_in ''tech'' (strip (lower command)) \<and>
          \<not> is_in ''sports'' (strip (lower command)) \<and>
          \<not> is_in ''business'' (strip (lower command)) \<and>
          \<not> is_in ''entertainment'' (strip (lower command))
          \<longrightarrow> news_category (strip (lower command)) = ''general'') \<and>
         Speak (''The current time is '' @ strftime w ''%I:%M %p'')
           \<notin> set (fst (process_command w va command))"
proof -
  define c where "c = strip (lower command)"
  have ne: "c \<noteq> []" using news unfolding c_def by auto
  have site: "find_website website_commands c = None"
    using no_site unfolding find_website_None c_def by simp
  have 1: "process_command w va command =
           (fst (get_news w va (news_category (strip (lower command))) ''in''), Inr ''continue'')"
    using ne site no_play news unfolding c_def
    by (simp add: process_command_def Let_def)
  have 2: "Speak (''The current time is '' @ strftime w ''%I:%M %p'')
           \<notin> set (fst (process_command w va command))"
    unfolding 1 using get_news_not_T [of w va] by auto
  from 1 2 show ?thesis by (simp add: news_category_def)
qed

theorem news_before_time_witness:
  "process_command (example_world WaitTimeoutError) (init (Some ''key'') True) ''news at this time'' =
     (fst (get_news (example_world WaitTimeoutError) (init (Some ''key'') True) ''general'' ''in''),
      Inr ''continue'')"
proof -
  have c: "strip (lower ''news at this time'') = ''news at this time''" by code_simp
  have 1: "is_in ''news'' (strip (lower ''news at this time''))" unfolding c by simp
  have 2: "is_in ''time'' (strip (lower ''news at this time''))" unfolding c by simp
  have 3: "\<forall>(cmd, url, message) \<in> set website_commands.
             \<not> is_in cmd (strip (lower ''news at this time''))"
    unfolding c by code_simp
  have 4: "\<not> startswith (strip (lower ''news at this time'')) ''play''"
    unfolding c by code_simp
  have 5: "news_category ''news at this time'' = ''general''" by code_simp
  from news_before_time [OF 1 2 3 4] show ?thesis
    unfolding c 5 by blast
qed

lemma play_music_result:
  assumes "music_library va = the_music_library" "song_aliases va = the_song_aliases"
  shows "snd (play_music va c) = Inr ''continue''"
proof -
  obtain r where "find_song va (song_query_of c) = Inr r"
    using find_song_total [OF assms] by blast
  then show ?thesis
    by (simp add: play_music_def Let_def split: option.splits)
qed

text \<open>
  Claim C10. With the fixed library \<open>process_command\<close> always returns, and what it
  returns is \<^verbatim>\<open>quit\<close> exactly when the normalized command contains no website trigger,
  does not start with \<^verbatim>\<open>play\<close>, contains none of \<^verbatim>\<open>news\<close>, \<^verbatim>\<open>time\<close>, \<^verbatim>\<open>date\<close>, and
  contains an exit phrase; on every other path it is \<^verbatim>\<open>continue\<close>.
\<close>

theorem process_command_result:
  "snd (process_command w (setup_music_library va) command) =
     Inr (if (\<forall>(cmd, url, message) \<in> set website_commands. \<not> is_in cmd (strip (lower command))) \<and>
             \<not> startswith (strip (lower command)) ''play'' \<and>
             \<not> is_in ''news'' (strip (lower command)) \<and>
             \<not> is_in ''time'' (strip (lower command)) \<and>
             \<not> is_in ''date'' (strip (lower command)) \<and>
             (\<exists>exit_cmd \<in> set [''goodbye'', ''stop'', ''quit'', ''exit'', ''bye''].
                 is_in exit_cmd (strip (lower command)))
          then ''quit'' else ''continue'')"
proof -
  define c where "c = strip (lower command)"
  show ?thesis
  proof (cases "c = []")
    case True
    then show ?thesis
      unfolding c_def by (simp add: process_command_def startswith_def)
  next
    case ne: False
    show ?thesis
    proof (cases "find_website website_commands c")
      case (Some hit)
      then have "\<not> (\<forall>(cmd, url, message) \<in> set website_commands. \<not> is_in cmd c)"
        unfolding find_website_None [symmetric] by simp
      with ne Some show ?thesis
        unfolding c_def by (simp add: process_command_def Let_def split: prod.splits)
    next
      case None
      then have nosite: "\<forall>(cmd, url, message) \<in> set website_commands. \<not> is_in cmd c"
        unfolding find_website_None .
      show ?thesis
      proof (cases "startswith c ''play''")
        case True
        with ne None play_music_result [of "setup_music_library va" c] show ?thesis
          unfolding c_def by (simp add: process_command_def Let_def)
      next
        case False
        with ne None nosite show ?thesis
          unfolding c_def by (simp add: process_command_def Let_def exit_commands_def)
      qed
    qed
  qed
qed

theorem process_command_result_witness:
  "snd (process_command (example_world WaitTimeoutError) (init None False) ''Please stop'') = Inr ''quit'' \<and>
   snd (process_command (example_world WaitTimeoutError) (init None False) ''  '') = Inr ''continue''"
proof -
  have y: "((\<forall>(cmd, url, message) \<in> set website_commands. \<not> is_in cmd (strip (lower ''Please stop''))) \<and>
             \<not> startswith (strip (lower ''Please stop'')) ''play'' \<and>
             \<not> is_in ''news'' (strip (lower ''Please stop'')) \<and>
             \<not> is_in ''time'' (strip (lower ''Please stop'')) \<and>
             \<not> is_in ''date'' (strip (lower ''Please stop'')) \<and>
             (\<exists>exit_cmd \<in> set [''goodbye'', ''stop'', ''quit'', ''exit'', ''bye''].
                 is_in exit_cmd (strip (lower ''Please stop'')))) = True"
    by code_simp
  have n: "((\<forall>(cmd, url, message) \<in> set website_commands. \<not> is_in cmd (strip (lower ''  ''))) \<and>
             \<not> startswith (strip (lower ''  '')) ''play'' \<and>
             \<not> is_in ''news'' (strip (lower ''  '')) \<and>
             \<not> is_in ''time'' (strip (lower ''  '')) \<and>
             \<not> is_in ''date'' (strip (lower ''  '')) \<and>
             (\<exists>exit_cmd \<in> set [''goodbye'', ''stop'', ''quit'', ''exit'', ''bye''].
                 is_in exit_cmd (strip (lower ''  '')))) = False"
    by code_simp
  show ?thesis
    unfolding init_def process_command_result y n by simp
qed

text \<open>
  Claim C8. With a news key configured and a request that succeeds with no articles,
  \<open>get_news\<close> speaks the no-articles notice and returns \<^verbatim>\<open>False\<close>.
\<close>

theorem get_news_no_articles:
  assumes "newsapi_key va = Some key" and "key \<noteq> []"
    and "requests_get w (news_url country category key) = HttpArticles []"
  shows "get_news w va category country = ([Speak ''No news articles found at the moment.''], False)"
  using assms by (simp add: get_news_def speak_def)

theorem get_news_no_articles_witness:
  "get_news (example_world WaitTimeoutError) (init (Some ''key'') True) ''sports'' ''in'' =
     ([Speak ''No news articles found at the moment.''], False)"
  by (rule get_news_no_articles [where key = "''key''"])
     (simp_all add: init_def setup_music_library_def example_world_def)

section \<open>Properties of the dialogue loop\<close>

lemma listen_fails_iff:
  "listen_fails w \<longleftrightarrow> fst (snd (listen_for_command w va)) = Inr None"
  by (cases "heard w") (simp_all add: listen_fails_def listen_for_command_def Let_def)

lemma listen_raises_iff:
  "listen_raises w \<longleftrightarrow> fst (snd (listen_for_command w va)) = Inl OtherException"
  by (cases "heard w") (simp_all add: listen_raises_def listen_for_command_def Let_def)

lemma listened_Nil [simp]: "listened [] va = va"
  by (simp add: listened_def microphone_opens_def)

lemma calibration_Nil [simp]: "calibration s [] = []"
  by (simp add: calibration_def microphone_opens_def)







lemma listened_flags [simp]:
  "should_quit (listened ws va) = should_quit va"
  "music_library (listened ws va) = music_library va"
  "song_aliases (listened ws va) = song_aliases va"
  by (simp_all add: listened_def)






lemma process_command_returns:
  assumes "music_library va = the_music_library" "song_aliases va = the_song_aliases"
  shows "\<exists>r. snd (process_command w va command) = Inr r"
  using play_music_result [OF assms]
  by (simp add: process_command_def Let_def split: option.splits prod.splits)

lemma emit_counter [simp]: "consecutive_errors (emit effs s) = consecutive_errors s"
  by (simp add: emit_def)

lemma emit_assistant [simp]: "assistant (emit effs s) = assistant s"
  by (simp add: emit_def)

lemma handle_error_from_zero:
  "consecutive_errors s = 0 \<Longrightarrow> consecutive_errors (handle_error e s) \<le> 1"
  by (simp add: handle_error_def on_exception_def Let_def max_consecutive_errors_def)

lemma on_command_from_zero:
  assumes "consecutive_errors s = 0"
  shows "consecutive_errors (on_command w command s) \<le> 1"
proof (cases "process_command w (assistant s) (actual_command_of command)")
  case (Pair effs r)
  then show ?thesis
    using assms handle_error_from_zero [of "emit effs s"]
    by (cases r) (simp_all add: on_command_def Let_def)
qed

lemma on_command_fixed_library:
  assumes "music_library (assistant s) = the_music_library"
    and "song_aliases (assistant s) = the_song_aliases"
  shows "consecutive_errors (on_command w command s) = consecutive_errors s"
proof (cases "process_command w (assistant s) (actual_command_of command)")
  case (Pair effs r)
  moreover obtain res where "snd (process_command w (assistant s) (actual_command_of command)) = Inr res"
    using process_command_returns [OF assms] by blast
  ultimately show ?thesis
    by (simp add: on_command_def Let_def)
qed

text \<open>
  Claim C7. In a turn whose listen attempt recognizes text, the wake-word check and the
  dispatch run on a state whose counter is already 0, whatever the counter was and
  whatever the text is. The counter ends the turn at 0 with the fixed library; with any
  library it ends at most at 1, the count of an exception raised after the reset.
\<close>

theorem recognition_resets_counter:
  assumes "heard w = Recognized text"
  shows "iteration w s =
           on_command w (lower text)
             ((emit (calibration s [w]) (s\<lparr>assistant := listened [w] (assistant s)\<rparr>))
                \<lparr>consecutive_errors := 0\<rparr>) \<and>
         consecutive_errors (iteration w s) \<le> 1 \<and>
         (music_library (assistant s) = the_music_library \<and>
          song_aliases (assistant s) = the_song_aliases
          \<longrightarrow> consecutive_errors (iteration w s) = 0)"
proof -
  let ?s0 = "(emit (calibration s [w]) (s\<lparr>assistant := listened [w] (assistant s)\<rparr>))
                \<lparr>consecutive_errors := 0\<rparr>"
  have it: "iteration w s = on_command w (lower text) ?s0"
    using assms
    by (simp add: iteration_def listen_for_command_def calibration_def listened_def
          microphone_opens_def Let_def)
  have le: "consecutive_errors (on_command w (lower text) ?s0) \<le> 1"
    by (rule on_command_from_zero) simp
  have fixed: "consecutive_errors (on_command w (lower text) ?s0) = 0"
    if "music_library (assistant s) = the_music_library"
      and "song_aliases (assistant s) = the_song_aliases"
    using that on_command_fixed_library [of ?s0 w "lower text"] by simp
  show ?thesis
    unfolding it using le fixed by blast
qed

theorem recognition_resets_counter_witness:
  "consecutive_errors
     (iteration (example_world (Recognized ''what time is it''))
        \<lparr>assistant = init None False, consecutive_errors = 4, broke = False, trace = []\<rparr>) = 0 \<and>
   consecutive_errors
     (iteration (example_world (Recognized ''Jarvis what time is it''))
        \<lparr>assistant = init None False, consecutive_errors = 4, broke = False, trace = []\<rparr>) = 0"
proof -
  let ?s = "\<lparr>assistant = init None False, consecutive_errors = 4, broke = False, trace = []\<rparr>"
  have lib: "music_library (assistant ?s) = the_music_library \<and>
          song_aliases (assistant ?s) = the_song_aliases"
    by (simp add: init_def)
  have 1: "heard (example_world (Recognized ''what time is it'')) = Recognized ''what time is it''"
    by (simp add: example_world_def)
  have 2: "heard (example_world (Recognized ''Jarvis what time is it'')) = Recognized ''Jarvis what time is it''"
    by (simp add: example_world_def)
  show ?thesis
    using recognition_resets_counter [OF 1, of ?s] recognition_resets_counter [OF 2, of ?s] lib
    by blast
qed

subsection \<open>Exceptions raised while a command is processed\<close>


















section \<open>Where the code departs from the specification\<close>

text \<open>
  Claim C2, at the command \<^verbatim>\<open>play display\<close>. The command with its leading \<^verbatim>\<open>play\<close>
  stripped and trimmed is \<^verbatim>\<open>display\<close>; the code removes every \<^verbatim>\<open>play\<close> and searches for
  \<^verbatim>\<open>dis\<close>. At \<^verbatim>\<open>play play\<close> the remainder is \<^verbatim>\<open>play\<close>, yet the code asks for a song
  instead of searching.
\<close>

theorem play_removed_everywhere:
  "song_query_of ''play display'' = ''dis'' \<and>
   strip (drop (length ''play'') ''play display'') = ''display'' \<and>
   process_command (example_world WaitTimeoutError) (init None False) ''play display'' =
     ([Speak ''Sorry, I couldn't find dis in my music library.'',
       Speak ''Let me search for it on YouTube instead.'',
       OpenUrl ''https://www.youtube.com/results?search_query=dis''],
      Inr ''continue'') \<and>
   strip (drop (length ''play'') ''play play'') = ''play'' \<and>
   process_command (example_world WaitTimeoutError) (init None False) ''play play'' =
     ([Speak ''Please specify a song to play.''], Inr ''continue'')"
  by code_simp

text \<open>
  Claim C3, at the utterance \<^verbatim>\<open>jarvis who is jarvis\<close>. The text with its leading wake
  token stripped and trimmed is \<^verbatim>\<open>who is jarvis\<close>; the code removes every \<^verbatim>\<open>jarvis\<close> and
  passes on \<^verbatim>\<open>who is\<close>. At \<^verbatim>\<open>jarvis jarvis\<close> the remainder is \<^verbatim>\<open>jarvis\<close>, yet the
  assistant answers with its prompt and dispatches nothing.
\<close>

theorem wake_word_removed_everywhere:
  "actual_command_of ''jarvis who is jarvis'' = ''who is'' \<and>
   strip (drop (length ''jarvis'') ''jarvis who is jarvis'') = ''who is jarvis'' \<and>
   strip (drop (length ''jarvis'') ''jarvis jarvis'') = ''jarvis'' \<and>
   trace (iteration (example_world (Recognized ''Jarvis jarvis''))
            \<lparr>assistant = init None False, consecutive_errors = 0, broke = False, trace = []\<rparr>) =
     [AdjustForAmbientNoise, Speak ''Yes, how can I help you?'']"
  by code_simp

text \<open>
  Claim C4, at the response \<^verbatim>\<open>**Hello** there\<close>. The assistant's \<open>ai_process\<close> removes
  the asterisks and trims, and adds no period and keeps runs of spaces; the clean-up of
  the separate AI client module does all of it.
\<close>

theorem ai_process_adds_no_period:
  "ai_process (example_world WaitTimeoutError) (init None True) ''say hello'' = ''Hello there'' \<and>
   clean_response ''**Hello** there'' = ''Hello there.'' \<and>
   ai_cleanup ''two  spaces'' = ''two  spaces'' \<and>
   clean_response ''two  spaces'' = ''two spaces.''"
  by code_simp

end
